theory Spec2Isabelle
  imports Complex_Main
begin

section \<open>Weighted prompt selection (generateAutonomousAction)\<close>

text \<open>
  Values thrown by the code or by its collaborators: the \<open>Error("LLM not initialized")\<close>
  of \<open>callLLM\<close>, the \<open>TypeError\<close> of a property read on \<open>undefined\<close>, and any
  value thrown by an external call (the Twitter client, the language model).
\<close>

datatype error = LLMNotInitialized | TypeError | External string

text \<open>One entry of the \<open>weightedPrompts\<close> table: \<open>{ prompt, weight }\<close>.\<close>

record weighted_option =
  prompt :: string
  weight :: int

text \<open>
  The table of \<open>generateAutonomousAction\<close> (agent.ts, lines 147-196), in source order.
\<close>

definition weightedPrompts :: "weighted_option list" where
  "weightedPrompts =
    [\<lparr>prompt = ''Share an interesting fact or insight about Base blockchain or Layer 2 solutions'', weight = 4\<rparr>,
     \<lparr>prompt = ''Discuss a recent development or trend in the crypto ecosystem'', weight = 4\<rparr>,
     \<lparr>prompt = ''Explain a basic crypto concept in a simple, engaging way'', weight = 4\<rparr>,
     \<lparr>prompt = ''Share tips about web3 development or using CDP tools'', weight = 4\<rparr>,
     \<lparr>prompt = ''Start a discussion about the future of DeFi or NFTs'', weight = 3\<rparr>,
     \<lparr>prompt = ''Ask the community about their favorite web3 tools or projects'', weight = 3\<rparr>,
     \<lparr>prompt = ''Share an interesting use case of blockchain technology'', weight = 3\<rparr>,
     \<lparr>prompt = ''Highlight a cool feature of Base or CDP'', weight = 3\<rparr>,
     \<lparr>prompt = ''Share what you can do as an AI agent on Base'', weight = 2\<rparr>,
     \<lparr>prompt = ''Explain one of your capabilities or tools'', weight = 2\<rparr>,
     \<lparr>prompt = ''Share a success story or interesting interaction'', weight = 2\<rparr>,
     \<lparr>prompt = ''Deploy a creative meme token with an interesting concept'', weight = 1\<rparr>,
     \<lparr>prompt = ''Create an NFT collection about current crypto trends'', weight = 1\<rparr>]"

text \<open>
  \<open>weightedPrompts.reduce((sum, item) => sum + item.weight, 0)\<close> (lines 199-202).
\<close>

definition totalWeight :: "weighted_option list \<Rightarrow> int" where
  "totalWeight opts = foldl (\<lambda>sum item. sum + weight item) 0 opts"

text \<open>
  The \<open>for ... of\<close> loop of lines 208-213: subtract the weight, return the prompt as soon
  as the running value is \<open>\<le> 0\<close>. \<open>None\<close> is the loop running off the end of the list.

  The running value is a JavaScript number. It is modelled as a real: the first value is
  the double \<open>Math.random() * totalWeight\<close>, a subtraction whose result is still positive
  is exact in binary floating point (the result is a smaller positive multiple of the
  same unit), and rounding never changes the sign of a result, so every comparison
  \<open>random <= 0\<close> of the loop has the outcome it has over the reals.
\<close>

fun walk :: "weighted_option list \<Rightarrow> real \<Rightarrow> string option" where
  "walk [] random = None"
| "walk (opt # rest) random =
     (let random' = random - real_of_int (weight opt)
      in if random' \<le> 0 then Some (prompt opt) else walk rest random')"

text \<open>
  The loop followed by the fallback of line 216, \<open>return weightedPrompts[0].prompt\<close>.
  On an empty table \<open>weightedPrompts[0]\<close> is \<open>undefined\<close> and the property read throws.
\<close>

definition select_prompt :: "weighted_option list \<Rightarrow> real \<Rightarrow> error + string" where
  "select_prompt opts random =
     (case walk opts random of
        Some p \<Rightarrow> Inr p
      | None \<Rightarrow> (case opts of [] \<Rightarrow> Inl TypeError | opt0 # _ \<Rightarrow> Inr (prompt opt0)))"

text \<open>
  \<open>generateAutonomousAction\<close> with the value of the variable \<open>random\<close> of line 205 as
  a parameter: the double that \<open>Math.random() * totalWeight\<close> evaluates to, that is the
  product rounded as the language rounds it. That double is at least 0 and below the
  total weight. What follows line 205 is the loop and the fallback.
\<close>

definition generateAutonomousAction :: "real \<Rightarrow> error + string" where
  "generateAutonomousAction random = select_prompt weightedPrompts random"

text \<open>The sum of the weights of the first \<open>k\<close> options: the upper end of bucket \<open>k - 1\<close>.\<close>

definition prefix_weight :: "weighted_option list \<Rightarrow> nat \<Rightarrow> real" where
  "prefix_weight opts k = real_of_int (sum_list (map weight (take k opts)))"

text \<open>
  Bucket \<open>k\<close> of the partition of \<open>[0, total)\<close> into contiguous pieces as long as the
  weights, in list order: \<open>[0, w\<^sub>0]\<close> for the first option, and from the sum of the
  weights before option \<open>k\<close> (excluded) to that sum plus its own weight (included) for
  the others.
\<close>

definition in_bucket :: "weighted_option list \<Rightarrow> nat \<Rightarrow> real \<Rightarrow> bool" where
  "in_bucket opts k r =
     ((if k = 0 then 0 \<le> r else prefix_weight opts k < r) \<and> r \<le> prefix_weight opts (Suc k))"

text \<open>The two-option list of the end-to-end scenario.\<close>

definition two_options :: "weighted_option list" where
  "two_options = [\<lparr>prompt = ''p1'', weight = 4\<rparr>, \<lparr>prompt = ''p2'', weight = 1\<rparr>]"


section \<open>The agent, its collaborators and the trace of effects\<close>

text \<open>
  Every call the code makes to a collaborator, every \<open>console\<close> line, every
  \<open>setTimeout\<close> sleep (in milliseconds) and every call of \<open>handleTweet\<close> from the
  mention loop is recorded, in order, in a trace.
\<close>

datatype event =
    ConsoleLog string
  | ConsoleError string error
  | Call_generateContent string
  | Call_reply string string
  | Call_tweet string
  | Call_userMentionTimeline "string option"
  | Call_handleTweet string string string
  | SetTimeout int

text \<open>
  The fields of \<open>BaseAIAgent\<close> that the loops read or write: whether \<open>this.model\<close> is
  set, \<open>processedTweets\<close> (line 24), \<open>lastProcessedMentionId\<close> (line 25, \<open>null\<close> is
  \<open>None\<close>), and the trace so far.
\<close>

record agent =
  model_initialized :: bool
  processedTweets :: "string set"
  lastProcessedMentionId :: "string option"
  trace :: "event list"

text \<open>
  A mention as \<open>userMentionTimeline\<close> returns it with the requested fields:
  \<open>referenced_tweets\<close> and \<open>author_id\<close> may be absent.
\<close>

record referenced_tweet =
  ref_type :: string
  ref_id :: string

record tweet_v2 =
  tweet_id :: string
  tweet_text :: string
  author_id :: "string option"
  referenced_tweets :: "referenced_tweet list option"

record user_v2 =
  user_id :: string
  username :: string

text \<open>
  The fetch response: \<open>tweets\<close> is \<open>None\<close> when \<open>mentions\<close> is falsy or
  \<open>mentions.tweets\<close> is not an array (the guard of line 273); \<open>includes_users\<close> is
  \<open>None\<close> when \<open>mentions.includes?.users\<close> is \<open>undefined\<close>.
\<close>

record mentions =
  tweets :: "tweet_v2 list option"
  includes_users :: "user_v2 list option"

text \<open>
  The collaborators. Each may answer differently on every call, so each receives the
  trace so far; a thrown value is \<open>Inl\<close>. \<open>v2_reply\<close> and \<open>v2_tweet\<close> return
  \<open>result.data.id\<close>; \<open>random_draw\<close> is the double that line 205 stores in
  \<open>random\<close>, the value of \<open>Math.random() * totalWeight\<close>.
\<close>

record env =
  model_generateContent :: "event list \<Rightarrow> string \<Rightarrow> error + string"
  v2_reply :: "event list \<Rightarrow> string \<Rightarrow> string \<Rightarrow> error + string"
  v2_tweet :: "event list \<Rightarrow> string \<Rightarrow> error + string"
  v2_userMentionTimeline :: "event list \<Rightarrow> string option \<Rightarrow> error + mentions"
  random_draw :: "event list \<Rightarrow> real"

definition emit :: "event \<Rightarrow> agent \<Rightarrow> agent" where
  "emit e a = a\<lparr>trace := trace a @ [e]\<rparr>"

text \<open>
  \<open>String.prototype.trim\<close>: white space and line terminators are removed at both ends.
  A \<open>char\<close> is a code unit below 256; of JavaScript's white space those are TAB, LF, VT,
  FF, CR, SP and NBSP.
\<close>

definition js_whitespace :: "char \<Rightarrow> bool" where
  "js_whitespace c = (c \<in> {CHR 0x09, CHR 0x0A, CHR 0x0B, CHR 0x0C, CHR 0x0D, CHR 0x20, CHR 0xA0})"

definition trim :: "string \<Rightarrow> string" where
  "trim s = rev (dropWhile js_whitespace (rev (dropWhile js_whitespace s)))"

text \<open>\<open>callLLM\<close> (lines 98-103).\<close>

definition callLLM :: "env \<Rightarrow> string \<Rightarrow> agent \<Rightarrow> (error + string) \<times> agent" where
  "callLLM env userMessage a =
     (if \<not> model_initialized a then (Inl LLMNotInitialized, a)
      else (model_generateContent env (trace a) userMessage,
            emit (Call_generateContent userMessage) a))"

section \<open>handleTweet\<close>

text \<open>The membership test of line 111 and the \<open>add\<close> of line 120.\<close>

definition has_processed :: "agent \<Rightarrow> string \<Rightarrow> bool" where
  "has_processed a tweetId = (tweetId \<in> processedTweets a)"

definition add_processed :: "string \<Rightarrow> agent \<Rightarrow> agent" where
  "add_processed tweetId a = a\<lparr>processedTweets := insert tweetId (processedTweets a)\<rparr>"

definition reply_prompt :: "string \<Rightarrow> string \<Rightarrow> string" where
  "reply_prompt authorUsername tweetText =
     ''User @'' @ authorUsername @ '' tweeted: '' @ [CHR 0x22] @ tweetText
       @ [CHR 0x22, CHR 0x0A, CHR 0x0A]
       @ ''Please provide a helpful response that could be sent as a reply. ''
       @ ''Keep it short, engaging, and use emojis where appropriate. ''
       @ ''Do not use markdown or HTML.''"

text \<open>
  Lines 129-139: what follows the \<open>await this.callLLM(prompt)\<close> of the \<open>try\<close> block. A
  throw of \<open>callLLM\<close> leaves the block; a throw of the reply is caught by the inner
  \<open>catch\<close>. \<open>response && response.trim()\<close> is truthy when both strings are non-empty.
\<close>

definition handleTweet_respond ::
    "env \<Rightarrow> string \<Rightarrow> (error + string) \<times> agent \<Rightarrow> (error + unit) \<times> agent" where
  "handleTweet_respond env tweetId r =
     (case r of
        (Inl e, a3) \<Rightarrow> (Inl e, a3)
      | (Inr response, a3) \<Rightarrow>
          (let a4 = emit (ConsoleLog (''Agent response: '' @ response)) a3
           in if response \<noteq> [] \<and> trim response \<noteq> [] then
                (case v2_reply env (trace a4) response tweetId of
                   Inl e \<Rightarrow>
                     (Inr (), emit (ConsoleError ''Error sending reply:'' e)
                                (emit (Call_reply response tweetId) a4))
                 | Inr rid \<Rightarrow>
                     (Inr (), emit (ConsoleLog (''Reply sent: '' @ rid))
                                (emit (Call_reply response tweetId) a4)))
              else (Inr (), a4)))"

text \<open>The \<open>try\<close> block of lines 116-139.\<close>

definition handleTweet_try ::
    "env \<Rightarrow> string \<Rightarrow> string \<Rightarrow> string \<Rightarrow> agent \<Rightarrow> (error + unit) \<times> agent" where
  "handleTweet_try env tweetText authorUsername tweetId a =
     (let a1 = emit (ConsoleLog (''Processing tweet '' @ tweetId @ '' from @''
                       @ authorUsername @ '': '' @ tweetText)) a;
          a2 = add_processed tweetId a1
      in handleTweet_respond env tweetId
           (callLLM env (reply_prompt authorUsername tweetText) a2))"

text \<open>\<open>handleTweet\<close> (lines 106-143): the early return, the \<open>try\<close> block and its \<open>catch\<close>.\<close>

definition handleTweet ::
    "env \<Rightarrow> string \<Rightarrow> string \<Rightarrow> string \<Rightarrow> agent \<Rightarrow> (error + unit) \<times> agent" where
  "handleTweet env tweetText authorUsername tweetId a =
     (if has_processed a tweetId then
        (Inr (), emit (ConsoleLog (''Tweet '' @ tweetId @ '' already processed, skipping...'')) a)
      else
        (case handleTweet_try env tweetText authorUsername tweetId a of
           (Inl e, a') \<Rightarrow> (Inr (), emit (ConsoleError ''Error handling tweet:'' e) a')
         | (Inr u, a') \<Rightarrow> (Inr u, a')))"

section \<open>checkMentions and pollMentions\<close>

text \<open>
  Lines 264-266: \<open>since_id\<close> is passed when \<open>lastProcessedMentionId\<close> is truthy, that
  is neither \<open>null\<close> nor the empty string.
\<close>

definition since_id :: "agent \<Rightarrow> string option" where
  "since_id a =
     (case lastProcessedMentionId a of
        None \<Rightarrow> None
      | Some c \<Rightarrow> if c = [] then None else Some c)"

text \<open>Lines 276-278.\<close>

definition isRetweet :: "tweet_v2 \<Rightarrow> bool" where
  "isRetweet t =
     (case referenced_tweets t of
        None \<Rightarrow> False
      | Some refs \<Rightarrow> list_ex (\<lambda>ref. ref_type ref = ''retweet'') refs)"

text \<open>Lines 281-283: the first user whose \<open>id\<close> is the tweet's \<open>author_id\<close>.\<close>

definition find_author :: "user_v2 list option \<Rightarrow> tweet_v2 \<Rightarrow> user_v2 option" where
  "find_author users t =
     (case users of
        None \<Rightarrow> None
      | Some us \<Rightarrow> find (\<lambda>user. author_id t = Some (user_id user)) us)"

text \<open>The \<open>for ... of\<close> loop of lines 274-291.\<close>

fun process_mentions ::
    "env \<Rightarrow> user_v2 list option \<Rightarrow> tweet_v2 list \<Rightarrow> agent \<Rightarrow> (error + unit) \<times> agent" where
  "process_mentions env users [] a = (Inr (), a)"
| "process_mentions env users (t # ts) a =
     (if isRetweet t then process_mentions env users ts a
      else
        (case find_author users t of
           None \<Rightarrow> process_mentions env users ts a
         | Some author \<Rightarrow>
             (case handleTweet env (tweet_text t) (username author) (tweet_id t)
                     (emit (Call_handleTweet (tweet_text t) (username author) (tweet_id t)) a) of
                (Inl e, a') \<Rightarrow> (Inl e, a')
              | (Inr u, a') \<Rightarrow> process_mentions env users ts (emit (SetTimeout 1000) a'))))"

text \<open>The \<open>try\<close> block of lines 256-292.\<close>

definition checkMentions_try :: "env \<Rightarrow> agent \<Rightarrow> (error + unit) \<times> agent" where
  "checkMentions_try env a =
     (let a1 = emit (Call_userMentionTimeline (since_id a)) a
      in case v2_userMentionTimeline env (trace a) (since_id a) of
           Inl e \<Rightarrow> (Inl e, a1)
         | Inr m \<Rightarrow>
             (case tweets m of
                None \<Rightarrow> (Inr (), a1)
              | Some ts \<Rightarrow> process_mentions env (includes_users m) ts a1))"

text \<open>\<open>checkMentions\<close> (lines 255-296).\<close>

definition checkMentions :: "env \<Rightarrow> agent \<Rightarrow> (error + unit) \<times> agent" where
  "checkMentions env a =
     (case checkMentions_try env a of
        (Inl e, a') \<Rightarrow> (Inr (), emit (ConsoleError ''Error checking mentions:'' e) a')
      | (Inr u, a') \<Rightarrow> (Inr u, a'))"

text \<open>
  The \<open>while (true)\<close> of \<open>pollMentions\<close> (lines 303-306), run for a given number of
  iterations. The loop has no exit: \<open>Inr\<close> is the agent after that many iterations, with
  the loop still running; \<open>Inl\<close> is the loop left by a throw.
\<close>

fun pollMentions_loop :: "nat \<Rightarrow> env \<Rightarrow> int \<Rightarrow> agent \<Rightarrow> (error + unit) \<times> agent" where
  "pollMentions_loop 0 env interval a = (Inr (), a)"
| "pollMentions_loop (Suc n) env interval a =
     (case checkMentions env a of
        (Inl e, a') \<Rightarrow> (Inl e, a')
      | (Inr u, a') \<Rightarrow> pollMentions_loop n env interval (emit (SetTimeout (interval * 1000)) a'))"

definition pollMentions :: "nat \<Rightarrow> env \<Rightarrow> int \<Rightarrow> agent \<Rightarrow> (error + unit) \<times> agent" where
  "pollMentions n env interval a =
     pollMentions_loop n env interval (emit (ConsoleLog ''Started polling for mentions...'') a)"

section \<open>runAutonomousMode\<close>

definition tweet_prompt :: "string \<Rightarrow> string" where
  "tweet_prompt thought =
     ''Create an engaging tweet based on this idea: '' @ thought @ [CHR 0x0A, CHR 0x0A]
       @ ''Guidelines:'' @ [CHR 0x0A]
       @ ''- Focus on providing value through information and engagement'' @ [CHR 0x0A]
       @ ''- Keep tweets concise and friendly (under 280 characters)'' @ [CHR 0x0A]
       @ ''- Use emojis appropriately'' @ [CHR 0x0A]
       @ ''- Include hashtags like #Base #Web3 when relevant'' @ [CHR 0x0A]
       @ ''- Don'' @ [CHR 0x27] @ ''t use markdown or HTML'' @ [CHR 0x0A]
       @ ''Just provide the tweet text directly.''"

text \<open>Lines 237-245: the tweet and its own \<open>try\<close>/\<open>catch\<close>.\<close>

definition runAutonomousMode_publish :: "env \<Rightarrow> string \<Rightarrow> agent \<Rightarrow> agent" where
  "runAutonomousMode_publish env response a2 =
     (if response \<noteq> [] \<and> trim response \<noteq> [] then
        (case v2_tweet env (trace a2) response of
           Inl e \<Rightarrow> emit (ConsoleError ''Error sending tweet:'' e) (emit (Call_tweet response) a2)
         | Inr tid \<Rightarrow> emit (ConsoleLog (''Tweet sent: '' @ tid)) (emit (Call_tweet response) a2))
      else a2)"

text \<open>The \<open>try\<close> block of lines 221-247.\<close>

definition runAutonomousMode_try :: "env \<Rightarrow> int \<Rightarrow> agent \<Rightarrow> (error + unit) \<times> agent" where
  "runAutonomousMode_try env interval a =
     (case generateAutonomousAction (random_draw env (trace a)) of
        Inl e \<Rightarrow> (Inl e, a)
      | Inr thought \<Rightarrow>
          (case callLLM env (tweet_prompt thought) a of
             (Inl e, a1) \<Rightarrow> (Inl e, a1)
           | (Inr response, a1) \<Rightarrow>
               (let a2 = emit (ConsoleLog (''Generated tweet: '' @ response)) a1;
                    a3 = runAutonomousMode_publish env response a2
                in (Inr (), emit (SetTimeout (interval * 1000)) a3))))"

text \<open>One iteration of the loop: the \<open>try\<close> block and the \<open>catch\<close> of lines 248-251.\<close>

definition runAutonomousMode_iteration :: "env \<Rightarrow> int \<Rightarrow> agent \<Rightarrow> (error + unit) \<times> agent" where
  "runAutonomousMode_iteration env interval a =
     (case runAutonomousMode_try env interval a of
        (Inl e, a') \<Rightarrow>
          (Inr (), emit (SetTimeout (60 * 1000)) (emit (ConsoleError ''Error in autonomous mode:'' e) a'))
      | (Inr u, a') \<Rightarrow> (Inr u, a'))"

text \<open>The \<open>while (true)\<close> of lines 220-252, run for a given number of iterations.\<close>

fun runAutonomousMode :: "nat \<Rightarrow> env \<Rightarrow> int \<Rightarrow> agent \<Rightarrow> (error + unit) \<times> agent" where
  "runAutonomousMode 0 env interval a = (Inr (), a)"
| "runAutonomousMode (Suc n) env interval a =
     (case runAutonomousMode_iteration env interval a of
        (Inl e, a') \<Rightarrow> (Inl e, a')
      | (Inr u, a') \<Rightarrow> runAutonomousMode n env interval a')"

section \<open>Reading a trace\<close>

fun handler_call :: "event \<Rightarrow> (string \<times> string \<times> string) option" where
  "handler_call (Call_handleTweet tweetText authorUsername tweetId) =
     Some (tweetText, authorUsername, tweetId)"
| "handler_call _ = None"

fun tweet_call :: "event \<Rightarrow> string option" where
  "tweet_call (Call_tweet t) = Some t"
| "tweet_call _ = None"

fun fetch_call :: "event \<Rightarrow> string option option" where
  "fetch_call (Call_userMentionTimeline since) = Some since"
| "fetch_call _ = None"

fun generate_call :: "event \<Rightarrow> string option" where
  "generate_call (Call_generateContent p) = Some p"
| "generate_call _ = None"

fun sleep :: "event \<Rightarrow> int option" where
  "sleep (SetTimeout ms) = Some ms"
| "sleep _ = None"

text \<open>The calls of \<open>handleTweet\<close>, of \<open>v2.tweet\<close>, the fetches and the sleeps of a trace, in order.\<close>

definition handler_calls :: "event list \<Rightarrow> (string \<times> string \<times> string) list" where
  "handler_calls evs = List.map_filter handler_call evs"

definition tweet_calls :: "event list \<Rightarrow> string list" where
  "tweet_calls evs = List.map_filter tweet_call evs"

definition fetch_calls :: "event list \<Rightarrow> string option list" where
  "fetch_calls evs = List.map_filter fetch_call evs"

definition generate_calls :: "event list \<Rightarrow> string list" where
  "generate_calls evs = List.map_filter generate_call evs"

definition sleeps :: "event list \<Rightarrow> int list" where
  "sleeps evs = List.map_filter sleep evs"

text \<open>
  The call of \<open>handleTweet\<close> that line 287 makes for a mention: none for a retweet or for
  a mention whose author is not among the users.
\<close>

definition dispatch_of :: "user_v2 list option \<Rightarrow> tweet_v2 \<Rightarrow> (string \<times> string \<times> string) option" where
  "dispatch_of users t =
     (if isRetweet t then None
      else map_option (\<lambda>author. (tweet_text t, username author, tweet_id t)) (find_author users t))"

section \<open>Concrete inputs\<close>

text \<open>A freshly initialised agent: nothing processed, no cursor.\<close>

definition agent0 :: agent where
  "agent0 = \<lparr>model_initialized = True, processedTweets = {}, lastProcessedMentionId = None,
             trace = []\<rparr>"

text \<open>Three mentions; the second is marked as a retweet.\<close>

definition mention1 :: tweet_v2 where
  "mention1 = \<lparr>tweet_id = ''101'', tweet_text = ''hello bot'', author_id = Some ''u1'',
               referenced_tweets = None\<rparr>"

definition mention2 :: tweet_v2 where
  "mention2 = \<lparr>tweet_id = ''102'', tweet_text = ''again'', author_id = Some ''u2'',
               referenced_tweets = Some [\<lparr>ref_type = ''retweet'', ref_id = ''90''\<rparr>]\<rparr>"

definition mention3 :: tweet_v2 where
  "mention3 = \<lparr>tweet_id = ''103'', tweet_text = ''gm'', author_id = Some ''u3'',
               referenced_tweets = Some [\<lparr>ref_type = ''replied_to'', ref_id = ''91''\<rparr>]\<rparr>"

definition users123 :: "user_v2 list" where
  "users123 = [\<lparr>user_id = ''u1'', username = ''alice''\<rparr>, \<lparr>user_id = ''u2'', username = ''bob''\<rparr>,
               \<lparr>user_id = ''u3'', username = ''carol''\<rparr>]"

definition batch3 :: mentions where
  "batch3 = \<lparr>tweets = Some [mention1, mention2, mention3], includes_users = Some users123\<rparr>"

text \<open>The same batch with only the third author among the users.\<close>

definition batch3_one_user :: mentions where
  "batch3_one_user = \<lparr>tweets = Some [mention1, mention2, mention3],
                      includes_users = Some [\<lparr>user_id = ''u3'', username = ''carol''\<rparr>]\<rparr>"

text \<open>
  Collaborators that all succeed, and variants in which one of them throws. The draw is
  18, the double of \<open>0.5 * 36\<close>.
\<close>

definition env_ok :: env where
  "env_ok = \<lparr>model_generateContent = (\<lambda>_ _. Inr ''gm!''),
            v2_reply = (\<lambda>_ _ _. Inr ''r1''),
            v2_tweet = (\<lambda>_ _. Inr ''t1''),
            v2_userMentionTimeline = (\<lambda>_ _. Inr batch3),
            random_draw = (\<lambda>_. 18)\<rparr>"

definition env_tweet_down :: env where
  "env_tweet_down = env_ok\<lparr>v2_tweet := (\<lambda>_ _. Inl (External ''503''))\<rparr>"

definition env_llm_down :: env where
  "env_llm_down = env_ok\<lparr>model_generateContent := (\<lambda>_ _. Inl (External ''quota''))\<rparr>"

definition env_llm_blank :: env where
  "env_llm_blank = env_ok\<lparr>model_generateContent := (\<lambda>_ _. Inr '' ''),
                          v2_tweet := (\<lambda>_ _. Inl (External ''503''))\<rparr>"

definition env_fetch_down :: env where
  "env_fetch_down = env_ok\<lparr>v2_userMentionTimeline := (\<lambda>_ _. Inl (External ''429''))\<rparr>"

definition env_one_user :: env where
  "env_one_user = env_ok\<lparr>v2_userMentionTimeline := (\<lambda>_ _. Inr batch3_one_user)\<rparr>"

section \<open>Properties of the selection\<close>

lemma foldl_weight: "foldl (\<lambda>sum item. sum + weight item) a opts = a + sum_list (map weight opts)"
  by (induction opts arbitrary: a) auto

lemma totalWeight_sum: "totalWeight opts = sum_list (map weight opts)"
  by (simp add: totalWeight_def foldl_weight)

lemma prefix_weight_Cons:
  "prefix_weight (opt # rest) (Suc k) = real_of_int (weight opt) + prefix_weight rest k"
  by (simp add: prefix_weight_def)

lemma walk_None_iff:
  "walk opts r = None \<longleftrightarrow> (\<forall>j<length opts. 0 < r - prefix_weight opts (Suc j))"
proof (induction opts arbitrary: r)
  case Nil
  show ?case by simp
next
  case (Cons opt rest)
  show ?case
  proof (cases "r - real_of_int (weight opt) \<le> 0")
    case True
    have "\<not> 0 < r - prefix_weight (opt # rest) (Suc 0)"
      using True by (simp add: prefix_weight_def)
    then show ?thesis using True by (auto simp: Let_def)
  next
    case False
    have "(\<forall>j<length (opt # rest). 0 < r - prefix_weight (opt # rest) (Suc j))
      \<longleftrightarrow> (\<forall>j<length rest. 0 < (r - real_of_int (weight opt)) - prefix_weight rest (Suc j))"
      (is "?L \<longleftrightarrow> ?R")
    proof
      assume l: ?L
      show ?R
      proof (intro allI impI)
        fix j assume "j < length rest"
        then have "0 < r - prefix_weight (opt # rest) (Suc (Suc j))" using l by simp
        then show "0 < (r - real_of_int (weight opt)) - prefix_weight rest (Suc j)"
          by (simp add: prefix_weight_Cons)
      qed
    next
      assume rr: ?R
      show ?L
      proof (intro allI impI)
        fix j assume j: "j < length (opt # rest)"
        show "0 < r - prefix_weight (opt # rest) (Suc j)"
        proof (cases j)
          case 0
          then show ?thesis using False by (simp add: prefix_weight_def)
        next
          case (Suc k)
          then have "k < length rest" using j by simp
          then have "0 < (r - real_of_int (weight opt)) - prefix_weight rest (Suc k)"
            using rr by simp
          then show ?thesis using Suc by (simp add: prefix_weight_Cons)
        qed
      qed
    qed
    then show ?thesis using False Cons.IH[of "r - real_of_int (weight opt)"]
      by (simp add: Let_def)
  qed
qed

lemma walk_Some_first:
  "walk opts r = Some p \<Longrightarrow>
     \<exists>i<length opts. p = prompt (opts ! i) \<and> r - prefix_weight opts (Suc i) \<le> 0
        \<and> (\<forall>j<i. 0 < r - prefix_weight opts (Suc j))"
proof (induction opts arbitrary: r)
  case Nil
  then show ?case by simp
next
  case (Cons opt rest)
  show ?case
  proof (cases "r - real_of_int (weight opt) \<le> 0")
    case True
    then have "p = prompt opt" using Cons.prems by (simp add: Let_def)
    moreover have "r - prefix_weight (opt # rest) (Suc 0) \<le> 0"
      using True by (simp add: prefix_weight_def)
    ultimately show ?thesis by (intro exI[of _ 0]) simp
  next
    case False
    then have "walk rest (r - real_of_int (weight opt)) = Some p"
      using Cons.prems by (simp add: Let_def)
    from Cons.IH[OF this] obtain i where i: "i < length rest" "p = prompt (rest ! i)"
      "(r - real_of_int (weight opt)) - prefix_weight rest (Suc i) \<le> 0"
      "\<forall>j<i. 0 < (r - real_of_int (weight opt)) - prefix_weight rest (Suc j)"
      by blast
    have "\<forall>j<Suc i. 0 < r - prefix_weight (opt # rest) (Suc j)"
    proof (intro allI impI)
      fix j assume j: "j < Suc i"
      show "0 < r - prefix_weight (opt # rest) (Suc j)"
      proof (cases j)
        case 0
        then show ?thesis using False by (simp add: prefix_weight_def)
      next
        case (Suc k)
        then have "k < i" using j by simp
        then have "0 < (r - real_of_int (weight opt)) - prefix_weight rest (Suc k)"
          using i(4) by blast
        then show ?thesis using Suc by (simp add: prefix_weight_Cons)
      qed
    qed
    moreover have "r - prefix_weight (opt # rest) (Suc (Suc i)) \<le> 0"
      using i(3) by (simp add: prefix_weight_Cons)
    ultimately show ?thesis using i(1,2) by (intro exI[of _ "Suc i"]) simp
  qed
qed

lemma prefix_weight_mono:
  assumes "\<forall>opt\<in>set opts. 0 < weight opt" and "j \<le> k"
  shows "prefix_weight opts j \<le> prefix_weight opts k"
proof -
  have "take k opts = take j opts @ take (k - j) (drop j opts)"
    using assms(2) take_add[of j "k - j" opts] by simp
  moreover have "0 \<le> sum_list (map weight (take (k - j) (drop j opts)))"
  proof (rule sum_list_nonneg)
    fix x assume "x \<in> set (map weight (take (k - j) (drop j opts)))"
    then obtain opt where "opt \<in> set (take (k - j) (drop j opts))" "x = weight opt" by auto
    then have "opt \<in> set opts" by (meson in_set_dropD in_set_takeD)
    then show "0 \<le> x" using assms(1) \<open>x = weight opt\<close> by force
  qed
  ultimately show ?thesis by (simp add: prefix_weight_def)
qed

lemma bucket_unique:
  assumes pos: "\<forall>opt\<in>set opts. 0 < weight opt"
    and hit: "r - prefix_weight opts (Suc i) \<le> 0"
    and before: "\<forall>j<i. 0 < r - prefix_weight opts (Suc j)"
    and k: "in_bucket opts k r"
  shows "k = i"
proof (rule ccontr)
  assume "k \<noteq> i"
  then consider "k < i" | "i < k" by linarith
  then show False
  proof cases
    case 1
    then have "0 < r - prefix_weight opts (Suc k)" using before by blast
    then show False using k by (simp add: in_bucket_def)
  next
    case 2
    then have "prefix_weight opts (Suc i) \<le> prefix_weight opts k"
      using prefix_weight_mono[OF pos, of "Suc i" k] by simp
    moreover have "prefix_weight opts k < r" using k 2 by (simp add: in_bucket_def)
    ultimately show False using hit by simp
  qed
qed

text \<open>
  The fallback of line 216 is not reached by a draw from 0 to below the total weight: the
  running value is \<open>\<le> 0\<close> at the last option at the latest. This holds for every list, with
  the subtraction taken exactly, as it is on the integer weights of the table.
\<close>

lemma walk_in_range_hits:
  assumes "0 \<le> r" and "r < real_of_int (totalWeight opts)"
  shows "walk opts r \<noteq> None"
proof
  assume n: "walk opts r = None"
  have ne: "opts \<noteq> []" using assms by (auto simp: totalWeight_def)
  have "length opts - 1 < length opts" using ne by simp
  then have "0 < r - prefix_weight opts (Suc (length opts - 1))"
    using n walk_None_iff[of opts r] by blast
  moreover have "Suc (length opts - 1) = length opts" using ne by simp
  ultimately have "0 < r - prefix_weight opts (length opts)" by simp
  then show False using assms(2) by (simp add: prefix_weight_def totalWeight_sum)
qed

text \<open>On a table that is not empty the selection returns a prompt, whatever the draw.\<close>

lemma select_prompt_returns:
  "opts \<noteq> [] \<Longrightarrow> \<exists>p. select_prompt opts r = Inr p"
  by (cases opts) (auto simp: select_prompt_def split: option.split)

text \<open>
  Claim C6. For a draw \<open>r\<close> with \<open>0 \<le> r < totalWeight\<close> the selection returns the prompt
  of the first option, in list order, at which \<open>r\<close> minus the sum of the weights so far
  is \<open>\<le> 0\<close>. That option is the one whose bucket contains \<open>r\<close>, and when all weights
  are positive no other bucket contains \<open>r\<close>. On the list \<open>[{p1,4},{p2,1}]\<close> the draw
  \<open>0.99 * total\<close> selects \<open>p2\<close> and the draw \<open>0.0\<close> selects \<open>p1\<close>.
\<close>

theorem select_prompt_first_hit:
  assumes "0 \<le> r" and "r < real_of_int (totalWeight opts)"
  shows "(\<exists>i<length opts. select_prompt opts r = Inr (prompt (opts ! i))
            \<and> r - prefix_weight opts (Suc i) \<le> 0
            \<and> (\<forall>j<i. 0 < r - prefix_weight opts (Suc j))
            \<and> in_bucket opts i r
            \<and> ((\<forall>opt\<in>set opts. 0 < weight opt) \<longrightarrow>
                 (\<forall>k<length opts. in_bucket opts k r \<longrightarrow> k = i)))
       \<and> select_prompt two_options (0.99 * real_of_int (totalWeight two_options)) = Inr ''p2''
       \<and> select_prompt two_options 0.0 = Inr ''p1''"
proof -
  have ne: "opts \<noteq> []" using assms by (auto simp: totalWeight_def)
  have "\<not> (\<forall>j<length opts. 0 < r - prefix_weight opts (Suc j))"
  proof
    assume a: "\<forall>j<length opts. 0 < r - prefix_weight opts (Suc j)"
    have "length opts - 1 < length opts" using ne by simp
    then have "0 < r - prefix_weight opts (Suc (length opts - 1))" using a by blast
    moreover have "Suc (length opts - 1) = length opts" using ne by simp
    ultimately have "0 < r - prefix_weight opts (length opts)" by simp
    then show False using assms(2) by (simp add: prefix_weight_def totalWeight_sum)
  qed
  then obtain p where p: "walk opts r = Some p" using walk_None_iff[of opts r] by auto
  from walk_Some_first[OF p] obtain i where i: "i < length opts" "p = prompt (opts ! i)"
    "r - prefix_weight opts (Suc i) \<le> 0" "\<forall>j<i. 0 < r - prefix_weight opts (Suc j)"
    by blast
  have b: "in_bucket opts i r"
  proof (cases i)
    case 0 then show ?thesis using assms(1) i(3) by (simp add: in_bucket_def)
  next
    case (Suc k)
    then have "0 < r - prefix_weight opts (Suc k)" using i(4) by blast
    then show ?thesis using Suc i(3) by (simp add: in_bucket_def)
  qed
  have u: "(\<forall>opt\<in>set opts. 0 < weight opt) \<longrightarrow> (\<forall>k<length opts. in_bucket opts k r \<longrightarrow> k = i)"
    using bucket_unique[OF _ i(3) i(4)] by blast
  have sel: "select_prompt opts r = Inr (prompt (opts ! i))"
    using p i(2) by (simp add: select_prompt_def)
  have first: "\<exists>i<length opts. select_prompt opts r = Inr (prompt (opts ! i))
            \<and> r - prefix_weight opts (Suc i) \<le> 0
            \<and> (\<forall>j<i. 0 < r - prefix_weight opts (Suc j))
            \<and> in_bucket opts i r
            \<and> ((\<forall>opt\<in>set opts. 0 < weight opt) \<longrightarrow>
                 (\<forall>k<length opts. in_bucket opts k r \<longrightarrow> k = i))"
    using i(1) sel i(3) i(4) b u by (intro exI[of _ i]) simp
  have e1: "select_prompt two_options (0.99 * real_of_int (totalWeight two_options)) = Inr ''p2''"
    by (simp add: two_options_def totalWeight_def select_prompt_def)
  have e2: "select_prompt two_options 0.0 = Inr ''p1''"
    by (simp add: two_options_def totalWeight_def select_prompt_def)
  show ?thesis using first e1 e2 by blast
qed

text \<open>
  On the table of the code the draw 17 lies in the bucket of the fifth option, from 16
  to 19, and that option's prompt is selected.
\<close>

theorem select_prompt_first_hit_witness:
  "(0::real) \<le> 17 \<and> 17 < real_of_int (totalWeight weightedPrompts) \<and>
   in_bucket weightedPrompts 4 17 \<and>
   select_prompt weightedPrompts 17 = Inr ''Start a discussion about the future of DeFi or NFTs''"
proof -
  have h1: "(0::real) \<le> 17" by simp
  have h2: "17 < real_of_int (totalWeight weightedPrompts)"
    by (simp add: totalWeight_def weightedPrompts_def)
  have pos: "\<forall>opt\<in>set weightedPrompts. 0 < weight opt"
    by (simp add: weightedPrompts_def)
  have b: "in_bucket weightedPrompts 4 17"
    by (simp add: in_bucket_def prefix_weight_def weightedPrompts_def)
  have len: "4 < length weightedPrompts" by (simp add: weightedPrompts_def)
  from select_prompt_first_hit[OF h1 h2] obtain i where
    i: "select_prompt weightedPrompts 17 = Inr (prompt (weightedPrompts ! i))"
      "(\<forall>opt\<in>set weightedPrompts. 0 < weight opt) \<longrightarrow>
         (\<forall>k<length weightedPrompts. in_bucket weightedPrompts k 17 \<longrightarrow> k = i)"
    by blast
  have "i = 4" using i(2) pos b len by blast
  then have "select_prompt weightedPrompts 17 = Inr (prompt (weightedPrompts ! 4))"
    using i(1) by simp
  moreover have "prompt (weightedPrompts ! 4) = ''Start a discussion about the future of DeFi or NFTs''"
    by (simp add: weightedPrompts_def)
  ultimately show ?thesis using h1 h2 b by simp
qed

section \<open>Effects of the steps on the agent and on the trace\<close>

lemma map_filter_append: "List.map_filter f (xs @ ys) = List.map_filter f xs @ List.map_filter f ys"
  by (simp add: List.map_filter_def)

lemma calls_Nil:
  "handler_calls [] = []" "tweet_calls [] = []" "fetch_calls [] = []" "sleeps [] = []"
  by (simp_all add: handler_calls_def tweet_calls_def fetch_calls_def sleeps_def)

lemma trace_emit: "trace (emit e a) = trace a @ [e]"
  by (simp add: emit_def)

lemma processedTweets_emit: "processedTweets (emit e a) = processedTweets a"
  by (simp add: emit_def)

lemma cursor_emit: "lastProcessedMentionId (emit e a) = lastProcessedMentionId a"
  by (simp add: emit_def)

lemma model_emit: "model_initialized (emit e a) = model_initialized a"
  by (simp add: emit_def)

lemma handler_calls_emit:
  "handler_calls (trace (emit e a)) = handler_calls (trace a) @ (case handler_call e of None \<Rightarrow> [] | Some c \<Rightarrow> [c])"
  by (simp add: handler_calls_def trace_emit map_filter_append split: option.split)

lemma tweet_calls_emit:
  "tweet_calls (trace (emit e a)) = tweet_calls (trace a) @ (case tweet_call e of None \<Rightarrow> [] | Some c \<Rightarrow> [c])"
  by (simp add: tweet_calls_def trace_emit map_filter_append split: option.split)

lemma fetch_calls_emit:
  "fetch_calls (trace (emit e a)) = fetch_calls (trace a) @ (case fetch_call e of None \<Rightarrow> [] | Some c \<Rightarrow> [c])"
  by (simp add: fetch_calls_def trace_emit map_filter_append split: option.split)

lemma generate_calls_emit:
  "generate_calls (trace (emit e a)) = generate_calls (trace a) @ (case generate_call e of None \<Rightarrow> [] | Some c \<Rightarrow> [c])"
  by (simp add: generate_calls_def trace_emit map_filter_append split: option.split)

lemma sleeps_emit:
  "sleeps (trace (emit e a)) = sleeps (trace a) @ (case sleep e of None \<Rightarrow> [] | Some c \<Rightarrow> [c])"
  by (simp add: sleeps_def trace_emit map_filter_append split: option.split)

lemmas emit_simps = processedTweets_emit cursor_emit model_emit handler_calls_emit
  tweet_calls_emit fetch_calls_emit generate_calls_emit sleeps_emit

lemma add_processed_simps:
  "processedTweets (add_processed i a) = insert i (processedTweets a)"
  "lastProcessedMentionId (add_processed i a) = lastProcessedMentionId a"
  "model_initialized (add_processed i a) = model_initialized a"
  "trace (add_processed i a) = trace a"
  by (simp_all add: add_processed_def)

lemma agent0_simps:
  "model_initialized agent0" "processedTweets agent0 = {}"
  "lastProcessedMentionId agent0 = None" "trace agent0 = []"
  by (simp_all add: agent0_def)

lemma callLLM_agent:
  "processedTweets (snd (callLLM env p a)) = processedTweets a"
  "lastProcessedMentionId (snd (callLLM env p a)) = lastProcessedMentionId a"
  "model_initialized (snd (callLLM env p a)) = model_initialized a"
  "handler_calls (trace (snd (callLLM env p a))) = handler_calls (trace a)"
  "tweet_calls (trace (snd (callLLM env p a))) = tweet_calls (trace a)"
  "fetch_calls (trace (snd (callLLM env p a))) = fetch_calls (trace a)"
  "sleeps (trace (snd (callLLM env p a))) = sleeps (trace a)"
  by (simp_all add: callLLM_def emit_simps)

lemma handleTweet_respond_agent:
  "processedTweets (snd (handleTweet_respond env i r)) = processedTweets (snd r)"
  "lastProcessedMentionId (snd (handleTweet_respond env i r)) = lastProcessedMentionId (snd r)"
  "model_initialized (snd (handleTweet_respond env i r)) = model_initialized (snd r)"
  "handler_calls (trace (snd (handleTweet_respond env i r))) = handler_calls (trace (snd r))"
  "fetch_calls (trace (snd (handleTweet_respond env i r))) = fetch_calls (trace (snd r))"
  "tweet_calls (trace (snd (handleTweet_respond env i r))) = tweet_calls (trace (snd r))"
  "sleeps (trace (snd (handleTweet_respond env i r))) = sleeps (trace (snd r))"
  by (auto simp: handleTweet_respond_def Let_def emit_simps split: prod.split sum.split)

lemma handleTweet_try_agent:
  "processedTweets (snd (handleTweet_try env t u i a)) = insert i (processedTweets a)"
  "lastProcessedMentionId (snd (handleTweet_try env t u i a)) = lastProcessedMentionId a"
  "model_initialized (snd (handleTweet_try env t u i a)) = model_initialized a"
  "handler_calls (trace (snd (handleTweet_try env t u i a))) = handler_calls (trace a)"
  "fetch_calls (trace (snd (handleTweet_try env t u i a))) = fetch_calls (trace a)"
  "tweet_calls (trace (snd (handleTweet_try env t u i a))) = tweet_calls (trace a)"
  "sleeps (trace (snd (handleTweet_try env t u i a))) = sleeps (trace a)"
  by (simp_all add: handleTweet_try_def Let_def handleTweet_respond_agent callLLM_agent
        add_processed_simps emit_simps)

lemma handleTweet_returns: "fst (handleTweet env t u i a) = Inr ()"
  by (simp add: handleTweet_def split: prod.split sum.split)

lemma handleTweet_snd:
  "snd (handleTweet env t u i a) =
     (if has_processed a i then
        emit (ConsoleLog (''Tweet '' @ i @ '' already processed, skipping...'')) a
      else (case fst (handleTweet_try env t u i a) of
              Inl e \<Rightarrow> emit (ConsoleError ''Error handling tweet:'' e) (snd (handleTweet_try env t u i a))
            | Inr _ \<Rightarrow> snd (handleTweet_try env t u i a)))"
  by (simp add: handleTweet_def split: prod.split sum.split)

lemma handleTweet_agent:
  "processedTweets (snd (handleTweet env t u i a)) = insert i (processedTweets a)"
  "lastProcessedMentionId (snd (handleTweet env t u i a)) = lastProcessedMentionId a"
  "model_initialized (snd (handleTweet env t u i a)) = model_initialized a"
  "handler_calls (trace (snd (handleTweet env t u i a))) = handler_calls (trace a)"
  "fetch_calls (trace (snd (handleTweet env t u i a))) = fetch_calls (trace a)"
  "tweet_calls (trace (snd (handleTweet env t u i a))) = tweet_calls (trace a)"
  "sleeps (trace (snd (handleTweet env t u i a))) = sleeps (trace a)"
  by (auto simp: handleTweet_snd handleTweet_try_agent emit_simps has_processed_def
        split: sum.split)

lemma handleTweet_skip:
  "has_processed b i \<Longrightarrow>
     handleTweet env t u i b =
       (Inr (), emit (ConsoleLog (''Tweet '' @ i @ '' already processed, skipping...'')) b)"
  by (simp add: handleTweet_def)

section \<open>The mention loop\<close>

lemma process_mentions_step:
  "process_mentions env users (t # ts) a =
     (case dispatch_of users t of
        None \<Rightarrow> process_mentions env users ts a
      | Some (x, u, i) \<Rightarrow>
          process_mentions env users ts
            (emit (SetTimeout 1000) (snd (handleTweet env x u i (emit (Call_handleTweet x u i) a)))))"
proof (cases "dispatch_of users t")
  case None
  then show ?thesis by (auto simp: dispatch_of_def split: if_splits option.splits)
next
  case (Some c)
  then obtain author where au: "\<not> isRetweet t" "find_author users t = Some author"
    "c = (tweet_text t, username author, tweet_id t)"
    by (auto simp: dispatch_of_def split: if_splits)
  have "fst (handleTweet env (tweet_text t) (username author) (tweet_id t)
           (emit (Call_handleTweet (tweet_text t) (username author) (tweet_id t)) a)) = Inr ()"
    by (rule handleTweet_returns)
  then show ?thesis using Some au
    by (auto split: prod.split sum.split)
qed

lemma process_mentions_returns: "fst (process_mentions env users ts a) = Inr ()"
proof (induction ts arbitrary: a)
  case Nil
  show ?case by simp
next
  case (Cons t ts)
  show ?case unfolding process_mentions_step
    by (simp add: Cons.IH split: option.split prod.split)
qed

lemma process_mentions_cursor:
  "lastProcessedMentionId (snd (process_mentions env users ts a)) = lastProcessedMentionId a"
proof (induction ts arbitrary: a)
  case Nil
  show ?case by simp
next
  case (Cons t ts)
  show ?case unfolding process_mentions_step
    by (simp add: Cons.IH emit_simps handleTweet_agent split: option.split prod.split)
qed

lemma process_mentions_model:
  "model_initialized (snd (process_mentions env users ts a)) = model_initialized a"
proof (induction ts arbitrary: a)
  case Nil
  show ?case by simp
next
  case (Cons t ts)
  show ?case unfolding process_mentions_step
    by (simp add: Cons.IH emit_simps handleTweet_agent split: option.split prod.split)
qed

lemma process_mentions_fetch_calls:
  "fetch_calls (trace (snd (process_mentions env users ts a))) = fetch_calls (trace a)"
proof (induction ts arbitrary: a)
  case Nil
  show ?case by simp
next
  case (Cons t ts)
  show ?case unfolding process_mentions_step
    by (simp add: Cons.IH emit_simps handleTweet_agent split: option.split prod.split)
qed

lemma process_mentions_handler_calls:
  "handler_calls (trace (snd (process_mentions env users ts a))) =
     handler_calls (trace a) @ List.map_filter (dispatch_of users) ts"
proof (induction ts arbitrary: a)
  case Nil
  show ?case by simp
next
  case (Cons t ts)
  show ?case unfolding process_mentions_step
    by (simp add: Cons.IH emit_simps handleTweet_agent split: option.split prod.split)
qed

lemma process_mentions_processed:
  "processedTweets (snd (process_mentions env users ts a)) =
     processedTweets a \<union> set (map (\<lambda>(x, u, i). i) (List.map_filter (dispatch_of users) ts))"
proof (induction ts arbitrary: a)
  case Nil
  show ?case by simp
next
  case (Cons t ts)
  show ?case unfolding process_mentions_step
    by (simp add: Cons.IH emit_simps handleTweet_agent split: option.split prod.split)
qed

lemma process_mentions_skip:
  assumes "dispatch_of users t = None"
  shows "process_mentions env users (xs @ t # ys) a = process_mentions env users (xs @ ys) a"
proof (induction xs arbitrary: a)
  case Nil
  show ?case by (simp add: process_mentions_step assms del: process_mentions.simps)
next
  case (Cons x xs)
  show ?case
    by (simp add: process_mentions_step Cons.IH del: process_mentions.simps
          split: option.split prod.split)
qed

lemma checkMentions_returns: "fst (checkMentions env a) = Inr ()"
  by (simp add: checkMentions_def split: prod.split sum.split)

lemma checkMentions_try_cursor:
  "lastProcessedMentionId (snd (checkMentions_try env a)) = lastProcessedMentionId a"
  by (simp add: checkMentions_try_def Let_def process_mentions_cursor emit_simps
        split: sum.split option.split)

lemma checkMentions_snd:
  "snd (checkMentions env a) =
     (case fst (checkMentions_try env a) of
        Inl e \<Rightarrow> emit (ConsoleError ''Error checking mentions:'' e) (snd (checkMentions_try env a))
      | Inr _ \<Rightarrow> snd (checkMentions_try env a))"
  by (simp add: checkMentions_def split: prod.split sum.split)

lemma checkMentions_cursor:
  "lastProcessedMentionId (snd (checkMentions env a)) = lastProcessedMentionId a"
  by (simp add: checkMentions_snd checkMentions_try_cursor emit_simps split: sum.split)

lemma checkMentions_try_fetch_calls:
  "fetch_calls (trace (snd (checkMentions_try env a))) = fetch_calls (trace a) @ [since_id a]"
  by (simp add: checkMentions_try_def Let_def process_mentions_fetch_calls emit_simps
        split: sum.split option.split)

lemma checkMentions_fetch_calls:
  "fetch_calls (trace (snd (checkMentions env a))) = fetch_calls (trace a) @ [since_id a]"
  by (simp add: checkMentions_snd checkMentions_try_fetch_calls emit_simps split: sum.split)

lemma checkMentions_try_processed:
  "processedTweets a \<subseteq> processedTweets (snd (checkMentions_try env a))"
  by (simp add: checkMentions_try_def Let_def process_mentions_processed emit_simps
        split: sum.split option.split)

lemma checkMentions_processed:
  "processedTweets a \<subseteq> processedTweets (snd (checkMentions env a))"
  using checkMentions_try_processed[of a env]
  by (simp add: checkMentions_snd emit_simps split: sum.split)

lemma checkMentions_try_fetched:
  assumes "v2_userMentionTimeline env (trace a) (since_id a) = Inr m" and "tweets m = Some ts"
  shows "checkMentions_try env a =
           process_mentions env (includes_users m) ts (emit (Call_userMentionTimeline (since_id a)) a)"
  using assms by (simp add: checkMentions_try_def Let_def)

lemma checkMentions_fetched:
  assumes "v2_userMentionTimeline env (trace a) (since_id a) = Inr m" and "tweets m = Some ts"
  shows "snd (checkMentions env a) =
           snd (process_mentions env (includes_users m) ts
                  (emit (Call_userMentionTimeline (since_id a)) a))"
  using process_mentions_returns[of env "includes_users m" ts
          "emit (Call_userMentionTimeline (since_id a)) a"]
  by (simp add: checkMentions_snd checkMentions_try_fetched[OF assms])

lemma checkMentions_handler_calls:
  assumes "v2_userMentionTimeline env (trace a) (since_id a) = Inr m" and "tweets m = Some ts"
  shows "handler_calls (trace (snd (checkMentions env a))) =
           handler_calls (trace a) @ List.map_filter (dispatch_of (includes_users m)) ts"
  by (simp add: checkMentions_fetched[OF assms] process_mentions_handler_calls emit_simps)

lemma checkMentions_fetch_throws:
  assumes "v2_userMentionTimeline env (trace a) (since_id a) = Inl e"
  shows "checkMentions env a =
           (Inr (), emit (ConsoleError ''Error checking mentions:'' e)
                      (emit (Call_userMentionTimeline (since_id a)) a))"
  using assms by (simp add: checkMentions_def checkMentions_try_def Let_def)

lemma since_id_cong:
  "lastProcessedMentionId b = lastProcessedMentionId a \<Longrightarrow> since_id b = since_id a"
  by (simp add: since_id_def)

lemma pollMentions_loop_step:
  "pollMentions_loop (Suc n) env interval a =
     pollMentions_loop n env interval (emit (SetTimeout (interval * 1000)) (snd (checkMentions env a)))"
  using checkMentions_returns[of env a] by (auto split: prod.split sum.split)

lemma pollMentions_loop_returns: "fst (pollMentions_loop n env interval a) = Inr ()"
proof (induction n arbitrary: a)
  case 0
  show ?case by simp
next
  case (Suc n)
  show ?case unfolding pollMentions_loop_step by (rule Suc.IH)
qed

lemma pollMentions_loop_cursor:
  "lastProcessedMentionId (snd (pollMentions_loop n env interval a)) = lastProcessedMentionId a"
proof (induction n arbitrary: a)
  case 0
  show ?case by simp
next
  case (Suc n)
  show ?case unfolding pollMentions_loop_step
    by (simp add: Suc.IH emit_simps checkMentions_cursor)
qed

lemma pollMentions_loop_fetch_calls:
  "fetch_calls (trace (snd (pollMentions_loop n env interval a))) =
     fetch_calls (trace a) @ replicate n (since_id a)"
proof (induction n arbitrary: a)
  case 0
  show ?case by simp
next
  case (Suc n)
  have "since_id (emit (SetTimeout (interval * 1000)) (snd (checkMentions env a))) = since_id a"
    by (rule since_id_cong) (simp add: emit_simps checkMentions_cursor)
  then show ?case unfolding pollMentions_loop_step
    by (simp add: Suc.IH emit_simps checkMentions_fetch_calls replicate_app_Cons_same)
qed

lemma pollMentions_loop_processed:
  "processedTweets a \<subseteq> processedTweets (snd (pollMentions_loop n env interval a))"
proof (induction n arbitrary: a)
  case 0
  show ?case by simp
next
  case (Suc n)
  have "processedTweets a \<subseteq> processedTweets (emit (SetTimeout (interval * 1000)) (snd (checkMentions env a)))"
    using checkMentions_processed[of a env] by (simp add: emit_simps)
  also have "\<dots> \<subseteq> processedTweets (snd (pollMentions_loop n env interval
        (emit (SetTimeout (interval * 1000)) (snd (checkMentions env a)))))"
    by (rule Suc.IH)
  finally show ?case unfolding pollMentions_loop_step .
qed

lemma pollMentions_fetch_count:
  "length (fetch_calls (trace (snd (pollMentions n env interval a)))) =
     length (fetch_calls (trace a)) + n"
  by (simp add: pollMentions_def pollMentions_loop_fetch_calls emit_simps)

lemma since_id_set:
  "lastProcessedMentionId a = Some c \<Longrightarrow> c \<noteq> [] \<Longrightarrow>
     fetch_calls (trace (snd (pollMentions_loop n env interval a))) =
       fetch_calls (trace a) @ replicate n (Some c)"
  by (simp add: pollMentions_loop_fetch_calls since_id_def)

lemma example_dispatch:
  "dispatch_of (Some users123) mention1 = Some (''hello bot'', ''alice'', ''101'')"
  "dispatch_of (Some users123) mention2 = None"
  "dispatch_of (Some users123) mention3 = Some (''gm'', ''carol'', ''103'')"
  by (simp_all add: dispatch_of_def isRetweet_def find_author_def users123_def
        mention1_def mention2_def mention3_def)

lemma example_fetch:
  "v2_userMentionTimeline env_ok h s = Inr batch3"
  "v2_userMentionTimeline env_llm_down h s = Inr batch3"
  "v2_userMentionTimeline env_fetch_down h s = Inl (External ''429'')"
  "v2_userMentionTimeline env_one_user h s = Inr batch3_one_user"
  by (simp_all add: env_ok_def env_llm_down_def env_fetch_down_def env_one_user_def)

lemma example_batch:
  "tweets batch3 = Some [mention1, mention2, mention3]"
  "includes_users batch3 = Some users123"
  "tweets batch3_one_user = Some [mention1, mention2, mention3]"
  "includes_users batch3_one_user = Some [\<lparr>user_id = ''u3'', username = ''carol''\<rparr>]"
  by (simp_all add: batch3_def batch3_one_user_def)

lemma example_retweet:
  "\<not> isRetweet mention1" "isRetweet mention2" "\<not> isRetweet mention3"
  by (simp_all add: isRetweet_def mention1_def mention2_def mention3_def)

text \<open>
  Claim C1 asks that a poll cycle that returned items leaves the cursor at the largest
  item ID of the cycle. The code declares \<open>lastProcessedMentionId\<close> and passes it as
  \<open>since_id\<close> when it is set (\<open>since_id_set\<close>), but no statement assigns it
  (\<open>checkMentions_cursor\<close>). Here a fresh agent polls a batch holding the mentions 101,
  102 and 103: the mentions 101 and 103 are handled, the cursor is still \<open>null\<close> after
  the cycle, and the second cycle fetches without \<open>since_id\<close> again.
\<close>

theorem checkMentions_never_advances_cursor:
  "handler_calls (trace (snd (checkMentions env_ok agent0))) =
     [(''hello bot'', ''alice'', ''101''), (''gm'', ''carol'', ''103'')] \<and>
   lastProcessedMentionId (snd (checkMentions env_ok agent0)) = None \<and>
   fetch_calls (trace (snd (pollMentions 2 env_ok 1200 agent0))) = [None, None]"
proof -
  have "handler_calls (trace (snd (checkMentions env_ok agent0))) =
     [(''hello bot'', ''alice'', ''101''), (''gm'', ''carol'', ''103'')]"
    using checkMentions_handler_calls[of env_ok agent0 batch3 "[mention1, mention2, mention3]"]
    by (simp add: example_fetch example_batch example_dispatch agent0_simps handler_calls_def)
  moreover have "lastProcessedMentionId (snd (checkMentions env_ok agent0)) = None"
    by (simp add: checkMentions_cursor agent0_simps)
  moreover have "fetch_calls (trace (snd (pollMentions 2 env_ok 1200 agent0))) = [None, None]"
  proof -
    have "fetch_calls (trace (snd (pollMentions 2 env_ok 1200 agent0))) = replicate 2 None"
      by (simp add: pollMentions_def pollMentions_loop_fetch_calls emit_simps since_id_def
            agent0_simps calls_Nil)
    then show ?thesis by (simp add: numeral_2_eq_2)
  qed
  ultimately show ?thesis by simp
qed

text \<open>
  Claim C4. An ID that is not in \<open>processedTweets\<close> passes the check of line 111; once
  added (line 120) it does not; adding it a second time changes nothing. \<open>handleTweet\<close>
  leaves the set as one \<open>add\<close> of the ID does, and a second call of \<open>handleTweet\<close> for
  the same ID leaves the set as the first call left it.
\<close>

theorem processed_check_and_mark:
  "(i \<notin> processedTweets a \<longrightarrow> \<not> has_processed a i) \<and>
   has_processed (add_processed i a) i \<and>
   add_processed i (add_processed i a) = add_processed i a \<and>
   processedTweets (snd (handleTweet env t u i a)) = processedTweets (add_processed i a) \<and>
   processedTweets (snd (handleTweet env' t' u' i (snd (handleTweet env t u i a)))) =
     processedTweets (snd (handleTweet env t u i a))"
  by (simp add: has_processed_def add_processed_def handleTweet_agent)

text \<open>
  The ID 101 on a fresh agent: not processed before, processed after, and two calls of
  \<open>handleTweet\<close> leave the set \<open>{101}\<close>.
\<close>

theorem processed_check_and_mark_witness:
  "''101'' \<notin> processedTweets agent0 \<and> \<not> has_processed agent0 ''101'' \<and>
   has_processed (add_processed ''101'' agent0) ''101'' \<and>
   processedTweets (snd (handleTweet env_ok ''hi'' ''alice'' ''101''
       (snd (handleTweet env_ok ''hi'' ''alice'' ''101'' agent0)))) = {''101''}"
  using processed_check_and_mark[of "''101''" agent0 env_ok "''hi''" "''alice''" env_ok "''hi''" "''alice''"]
  by (simp add: agent0_simps add_processed_def)

text \<open>
  Claim C5. When the fetch throws, \<open>checkMentions\<close> returns normally and leaves
  \<open>processedTweets\<close> and the cursor as they were. When the fetch returns a batch,
  \<open>checkMentions\<close> returns normally and \<open>handleTweet\<close> is called for every mention of
  the batch that is neither a retweet nor without a known author, in batch order,
  whatever the language model and the reply call do, so also when they throw for an
  earlier mention. The loop of \<open>pollMentions\<close> is never left by a throw: after any number
  \<open>n\<close> of iterations it is still running and has fetched \<open>n\<close> times.
\<close>

theorem checkMentions_failures_contained:
  "(\<forall>e. v2_userMentionTimeline env (trace a) (since_id a) = Inl e \<longrightarrow>
      fst (checkMentions env a) = Inr () \<and>
      processedTweets (snd (checkMentions env a)) = processedTweets a \<and>
      lastProcessedMentionId (snd (checkMentions env a)) = lastProcessedMentionId a) \<and>
   (\<forall>m ts. v2_userMentionTimeline env (trace a) (since_id a) = Inr m \<and> tweets m = Some ts \<longrightarrow>
      fst (checkMentions env a) = Inr () \<and>
      handler_calls (trace (snd (checkMentions env a))) =
        handler_calls (trace a) @ List.map_filter (dispatch_of (includes_users m)) ts) \<and>
   (\<forall>n interval.
      fst (pollMentions n env interval a) = Inr () \<and>
      length (fetch_calls (trace (snd (pollMentions n env interval a)))) =
        length (fetch_calls (trace a)) + n)"
proof (intro conjI allI impI)
  fix e assume f: "v2_userMentionTimeline env (trace a) (since_id a) = Inl e"
  show "fst (checkMentions env a) = Inr ()" by (rule checkMentions_returns)
  show "processedTweets (snd (checkMentions env a)) = processedTweets a"
    by (simp add: checkMentions_fetch_throws[OF f] emit_simps)
  show "lastProcessedMentionId (snd (checkMentions env a)) = lastProcessedMentionId a"
    by (rule checkMentions_cursor)
next
  fix m ts
  assume f: "v2_userMentionTimeline env (trace a) (since_id a) = Inr m \<and> tweets m = Some ts"
  show "fst (checkMentions env a) = Inr ()" by (rule checkMentions_returns)
  show "handler_calls (trace (snd (checkMentions env a))) =
        handler_calls (trace a) @ List.map_filter (dispatch_of (includes_users m)) ts"
    using f by (simp add: checkMentions_handler_calls)
next
  fix n interval
  show "fst (pollMentions n env interval a) = Inr ()"
    by (simp add: pollMentions_def pollMentions_loop_returns)
  show "length (fetch_calls (trace (snd (pollMentions n env interval a)))) =
        length (fetch_calls (trace a)) + n"
    by (rule pollMentions_fetch_count)
qed

text \<open>
  With a fetch that throws, nothing is processed, the cursor stays \<open>null\<close> and three
  iterations of the loop fetch three times. With a language model that throws on every
  call, the \<open>try\<close> block of \<open>handleTweet\<close> throws for the mention 101 and the mention
  103 is still dispatched.
\<close>

theorem checkMentions_failures_contained_witness:
  "v2_userMentionTimeline env_fetch_down (trace agent0) (since_id agent0) = Inl (External ''429'') \<and>
   fst (checkMentions env_fetch_down agent0) = Inr () \<and>
   processedTweets (snd (checkMentions env_fetch_down agent0)) = {} \<and>
   lastProcessedMentionId (snd (checkMentions env_fetch_down agent0)) = None \<and>
   fst (handleTweet_try env_llm_down ''hello bot'' ''alice'' ''101'' agent0) = Inl (External ''quota'') \<and>
   v2_userMentionTimeline env_llm_down (trace agent0) (since_id agent0) = Inr batch3 \<and>
   tweets batch3 = Some [mention1, mention2, mention3] \<and>
   handler_calls (trace (snd (checkMentions env_llm_down agent0))) =
     [(''hello bot'', ''alice'', ''101''), (''gm'', ''carol'', ''103'')] \<and>
   fst (pollMentions 3 env_fetch_down 1200 agent0) = Inr () \<and>
   length (fetch_calls (trace (snd (pollMentions 3 env_fetch_down 1200 agent0)))) = 3"
proof -
  have t: "fst (handleTweet_try env_llm_down ''hello bot'' ''alice'' ''101'' agent0)
      = Inl (External ''quota'')"
    by (simp add: handleTweet_try_def handleTweet_respond_def callLLM_def add_processed_def
          emit_def agent0_simps env_llm_down_def env_ok_def)
  show ?thesis
    using t checkMentions_failures_contained[of env_fetch_down agent0] checkMentions_failures_contained[of env_llm_down agent0]
    by (simp add: example_fetch example_batch example_dispatch agent0_simps calls_Nil)
qed

text \<open>
  Claim C7, as the code has it. In a cycle that fetches exactly three mentions of which
  the second is marked as a retweet and the first and third are not, \<open>handleTweet\<close> is
  never called for the second, and is called, in that order, for those of the first and
  the third whose \<open>author_id\<close> is the \<open>id\<close> of a user of \<open>includes.users\<close>: for both
  when both authors are there.
\<close>

theorem checkMentions_three_items:
  assumes "v2_userMentionTimeline env (trace a) (since_id a) = Inr m"
    and "tweets m = Some [t1, t2, t3]"
    and "isRetweet t2" and "\<not> isRetweet t1" and "\<not> isRetweet t3"
  shows "handler_calls (trace (snd (checkMentions env a))) =
     handler_calls (trace a)
       @ (case find_author (includes_users m) t1 of
            None \<Rightarrow> []
          | Some author \<Rightarrow> [(tweet_text t1, username author, tweet_id t1)])
       @ (case find_author (includes_users m) t3 of
            None \<Rightarrow> []
          | Some author \<Rightarrow> [(tweet_text t3, username author, tweet_id t3)])"
  using assms(3-5)
  by (simp add: checkMentions_handler_calls[OF assms(1,2)] dispatch_of_def split: option.split)

text \<open>
  With the three authors among the users, exactly the mentions 101 and 103 are
  dispatched, in that order.
\<close>

theorem checkMentions_three_items_witness:
  "v2_userMentionTimeline env_ok (trace agent0) (since_id agent0) = Inr batch3 \<and>
   tweets batch3 = Some [mention1, mention2, mention3] \<and>
   isRetweet mention2 \<and> \<not> isRetweet mention1 \<and> \<not> isRetweet mention3 \<and>
   handler_calls (trace (snd (checkMentions env_ok agent0))) =
     [(''hello bot'', ''alice'', ''101''), (''gm'', ''carol'', ''103'')]"
proof -
  have a1: "find_author (Some users123) mention1 = Some \<lparr>user_id = ''u1'', username = ''alice''\<rparr>"
    by (simp add: example_batch find_author_def users123_def mention1_def)
  have a3: "find_author (Some users123) mention3 = Some \<lparr>user_id = ''u3'', username = ''carol''\<rparr>"
    by (simp add: example_batch find_author_def users123_def mention3_def)
  have t: "tweet_text mention1 = ''hello bot''" "tweet_id mention1 = ''101''"
    "tweet_text mention3 = ''gm''" "tweet_id mention3 = ''103''"
    by (simp_all add: mention1_def mention3_def)
  show ?thesis
    using checkMentions_three_items[of env_ok agent0 batch3 mention1 mention2 mention3]
    by (simp add: example_fetch example_batch example_retweet agent0_simps calls_Nil a1 a3 t)
qed

text \<open>
  Claim C7 as stated asks that the first and the third mention are dispatched. When only
  the third author is among the users of the response, the first mention is not
  dispatched (line 285).
\<close>

theorem first_of_three_not_dispatched_without_author:
  "v2_userMentionTimeline env_one_user (trace agent0) (since_id agent0) = Inr batch3_one_user \<and>
   tweets batch3_one_user = Some [mention1, mention2, mention3] \<and>
   isRetweet mention2 \<and> \<not> isRetweet mention1 \<and> \<not> isRetweet mention3 \<and>
   handler_calls (trace (snd (checkMentions env_one_user agent0))) = [(''gm'', ''carol'', ''103'')]"
proof -
  have "handler_calls (trace (snd (checkMentions env_one_user agent0))) = [(''gm'', ''carol'', ''103'')]"
    using checkMentions_handler_calls[of env_one_user agent0 batch3_one_user
            "[mention1, mention2, mention3]"]
    by (simp add: example_fetch example_batch agent0_simps calls_Nil dispatch_of_def
          isRetweet_def find_author_def mention1_def mention2_def mention3_def)
  then show ?thesis by (simp add: example_fetch example_batch example_retweet)
qed

text \<open>
  Claim C9. A call of \<open>handleTweet\<close> for an ID that is not yet processed returns
  normally; the agent on which \<open>callLLM\<close> runs already has the ID in \<open>processedTweets\<close>;
  the ID is in the set when the call returns, whatever the language model and the reply
  call did, and stays there through any number of later poll cycles; and every later call
  of \<open>handleTweet\<close> for that ID only logs that the tweet is skipped.
\<close>

theorem handleTweet_marks_before_generating:
  assumes "\<not> has_processed a i"
  shows "fst (handleTweet env t u i a) = Inr () \<and>
    (\<exists>a2. has_processed a2 i \<and>
       handleTweet_try env t u i a = handleTweet_respond env i (callLLM env (reply_prompt u t) a2)) \<and>
    has_processed (snd (handleTweet env t u i a)) i \<and>
    (\<forall>n env' interval.
       has_processed (snd (pollMentions_loop n env' interval (snd (handleTweet env t u i a)))) i) \<and>
    (\<forall>b env' t' u'. has_processed b i \<longrightarrow>
       handleTweet env' t' u' i b =
         (Inr (), emit (ConsoleLog (''Tweet '' @ i @ '' already processed, skipping...'')) b))"
proof -
  let ?a1 = "emit (ConsoleLog (''Processing tweet '' @ i @ '' from @'' @ u @ '': '' @ t)) a"
  have before: "has_processed (add_processed i ?a1) i"
    by (simp add: has_processed_def add_processed_simps)
  have tried: "handleTweet_try env t u i a =
      handleTweet_respond env i (callLLM env (reply_prompt u t) (add_processed i ?a1))"
    by (simp add: handleTweet_try_def Let_def)
  have after: "has_processed (snd (handleTweet env t u i a)) i"
    by (simp add: has_processed_def handleTweet_agent)
  have later: "has_processed (snd (pollMentions_loop n env' interval (snd (handleTweet env t u i a)))) i"
    for n env' interval
    using after pollMentions_loop_processed[of "snd (handleTweet env t u i a)" n env' interval]
    by (auto simp: has_processed_def)
  show ?thesis
    using before tried after later handleTweet_skip handleTweet_returns[of env t u i a]
    by blast
qed

text \<open>
  With a language model that throws, the error is caught and logged, the ID 101 is
  processed all the same, and a later call for 101 with working collaborators is skipped.
\<close>

theorem handleTweet_marks_before_generating_witness:
  "\<not> has_processed agent0 ''101'' \<and>
   ConsoleError ''Error handling tweet:'' (External ''quota'')
     \<in> set (trace (snd (handleTweet env_llm_down ''hello bot'' ''alice'' ''101'' agent0))) \<and>
   has_processed (snd (handleTweet env_llm_down ''hello bot'' ''alice'' ''101'' agent0)) ''101'' \<and>
   handleTweet env_ok ''hello bot'' ''alice'' ''101''
       (snd (handleTweet env_llm_down ''hello bot'' ''alice'' ''101'' agent0)) =
     (Inr (), emit (ConsoleLog ''Tweet 101 already processed, skipping...'')
                (snd (handleTweet env_llm_down ''hello bot'' ''alice'' ''101'' agent0)))"
proof -
  have h: "\<not> has_processed agent0 ''101''"
    by (simp add: has_processed_def agent0_simps)
  have e: "ConsoleError ''Error handling tweet:'' (External ''quota'')
     \<in> set (trace (snd (handleTweet env_llm_down ''hello bot'' ''alice'' ''101'' agent0)))"
    by (simp add: handleTweet_def handleTweet_try_def handleTweet_respond_def callLLM_def
          has_processed_def add_processed_def emit_def agent0_simps env_llm_down_def env_ok_def)
  note c = handleTweet_marks_before_generating[OF h, of env_llm_down "''hello bot''" "''alice''"]
  have p: "has_processed (snd (handleTweet env_llm_down ''hello bot'' ''alice'' ''101'' agent0)) ''101''"
    using c by blast
  have "handleTweet env_ok ''hello bot'' ''alice'' ''101''
       (snd (handleTweet env_llm_down ''hello bot'' ''alice'' ''101'' agent0)) =
     (Inr (), emit (ConsoleLog (''Tweet '' @ ''101'' @ '' already processed, skipping...''))
                (snd (handleTweet env_llm_down ''hello bot'' ''alice'' ''101'' agent0)))"
    using c p by blast
  then show ?thesis using h e p by simp
qed

text \<open>
  Claim C10. A mention that is not a retweet and whose \<open>author_id\<close> is the \<open>id\<close> of no
  user of \<open>includes.users\<close> (or there are no users at all) is passed over: the loop body
  leaves the agent and the trace as they are, so no call of \<open>handleTweet\<close>, no addition
  to \<open>processedTweets\<close>, no log line and no delay; and a batch holding the mention is
  processed exactly as the batch without it.
\<close>

theorem mention_without_author_skipped:
  assumes "\<not> isRetweet t"
    and "\<forall>us. users = Some us \<longrightarrow> (\<forall>user\<in>set us. author_id t \<noteq> Some (user_id user))"
  shows "process_mentions env users [t] a = (Inr (), a) \<and>
    process_mentions env users (xs @ t # ys) a = process_mentions env users (xs @ ys) a"
proof -
  have "find_author users t = None"
    using assms(2) by (auto simp: find_author_def find_None_iff split: option.split)
  then have d: "dispatch_of users t = None" by (simp add: dispatch_of_def)
  have "process_mentions env users ([] @ t # []) a = process_mentions env users ([] @ []) a"
    by (rule process_mentions_skip[OF d])
  then show ?thesis using process_mentions_skip[OF d, of env xs ys a] by simp
qed

text \<open>
  The mention 101, whose author \<open>u1\<close> is not among the users of the response.
\<close>

theorem mention_without_author_skipped_witness:
  "\<not> isRetweet mention1 \<and>
   process_mentions env_one_user (includes_users batch3_one_user) [mention1] agent0 = (Inr (), agent0) \<and>
   process_mentions env_one_user (includes_users batch3_one_user) [mention1, mention3] agent0
     = process_mentions env_one_user (includes_users batch3_one_user) [mention3] agent0"
proof -
  have h: "\<forall>us. includes_users batch3_one_user = Some us \<longrightarrow>
             (\<forall>user\<in>set us. author_id mention1 \<noteq> Some (user_id user))"
    by (simp add: example_batch mention1_def)
  show ?thesis
    using mention_without_author_skipped[OF example_retweet(1) h, of env_one_user agent0 "[]" "[mention3]"]
    by (simp add: example_retweet del: process_mentions.simps)
qed

section \<open>The autonomous loop\<close>

lemma runAutonomousMode_publish_agent:
  "sleeps (trace (runAutonomousMode_publish env response a)) = sleeps (trace a)"
  "tweet_calls (trace (runAutonomousMode_publish env response a)) =
     tweet_calls (trace a) @ (if trim response = [] then [] else [response])"
  by (auto simp: runAutonomousMode_publish_def emit_simps trim_def split: sum.split)

lemma runAutonomousMode_iteration_returns:
  "fst (runAutonomousMode_iteration env interval a) = Inr ()"
  by (simp add: runAutonomousMode_iteration_def split: prod.split sum.split)

lemma runAutonomousMode_iteration_snd:
  "snd (runAutonomousMode_iteration env interval a) =
     (case fst (runAutonomousMode_try env interval a) of
        Inl e \<Rightarrow> emit (SetTimeout (60 * 1000))
                  (emit (ConsoleError ''Error in autonomous mode:'' e)
                     (snd (runAutonomousMode_try env interval a)))
      | Inr _ \<Rightarrow> snd (runAutonomousMode_try env interval a))"
  by (simp add: runAutonomousMode_iteration_def split: prod.split sum.split)

lemma runAutonomousMode_try_Inl:
  "generateAutonomousAction (random_draw env (trace a)) = Inl e \<Longrightarrow>
     runAutonomousMode_try env interval a = (Inl e, a)"
  by (simp add: runAutonomousMode_try_def)

lemma runAutonomousMode_try_Inr:
  "generateAutonomousAction (random_draw env (trace a)) = Inr thought \<Longrightarrow>
     runAutonomousMode_try env interval a =
       (case fst (callLLM env (tweet_prompt thought) a) of
          Inl e \<Rightarrow> (Inl e, snd (callLLM env (tweet_prompt thought) a))
        | Inr response \<Rightarrow>
            (Inr (), emit (SetTimeout (interval * 1000))
               (runAutonomousMode_publish env response
                  (emit (ConsoleLog (''Generated tweet: '' @ response))
                     (snd (callLLM env (tweet_prompt thought) a))))))"
  by (simp add: runAutonomousMode_try_def Let_def split: prod.split sum.split)

lemma generateAutonomousAction_18:
  "generateAutonomousAction 18 = Inr ''Start a discussion about the future of DeFi or NFTs''"
  by (simp add: generateAutonomousAction_def weightedPrompts_def totalWeight_def select_prompt_def)

text \<open>
  Claim C3, as the code has it. An iteration of the loop of \<open>runAutonomousMode\<close> returns
  to the loop and sleeps once: 60 seconds when the topic selection or \<open>callLLM\<close> throws,
  the normal interval otherwise. The outcome of the tweet call has no part in it: a
  throw of the tweet call is caught by the inner \<open>catch\<close> (lines 242-244) and the normal
  interval follows.
\<close>

theorem runAutonomousMode_sleep:
  "fst (runAutonomousMode_iteration env interval a) = Inr () \<and>
   sleeps (trace (snd (runAutonomousMode_iteration env interval a))) =
     sleeps (trace a) @
       [case generateAutonomousAction (random_draw env (trace a)) of
          Inl e \<Rightarrow> 60 * 1000
        | Inr thought \<Rightarrow>
            (case fst (callLLM env (tweet_prompt thought) a) of
               Inl e \<Rightarrow> 60 * 1000
             | Inr response \<Rightarrow> interval * 1000)]"
proof (cases "generateAutonomousAction (random_draw env (trace a))")
  case (Inl e)
  show ?thesis
    by (simp add: runAutonomousMode_iteration_returns runAutonomousMode_iteration_snd
          runAutonomousMode_try_Inl[OF Inl] Inl emit_simps)
next
  case (Inr thought)
  show ?thesis
    by (simp add: runAutonomousMode_iteration_returns runAutonomousMode_iteration_snd
          runAutonomousMode_try_Inr[OF Inr] Inr emit_simps runAutonomousMode_publish_agent callLLM_agent
          split: sum.split)
qed

text \<open>
  With a language model that throws the iteration sleeps 60000 ms, and with working
  collaborators it sleeps 3600000 ms.
\<close>

theorem runAutonomousMode_sleep_witness:
  "sleeps (trace (snd (runAutonomousMode_iteration env_llm_down 3600 agent0))) = [60000] \<and>
   sleeps (trace (snd (runAutonomousMode_iteration env_ok 3600 agent0))) = [3600000]"
  using runAutonomousMode_sleep[of env_llm_down 3600 agent0] runAutonomousMode_sleep[of env_ok 3600 agent0]
  by (simp add: env_llm_down_def env_ok_def agent0_simps generateAutonomousAction_18
        callLLM_def sleeps_def)

text \<open>
  Claim C3 as stated asks for the 60-second sleep whenever a step throws and is caught,
  publishing included. When the tweet call throws, the error is caught and logged, and
  the iteration sleeps the normal 3600 seconds, not 60.
\<close>

theorem runAutonomousMode_publish_error_normal_sleep:
  "ConsoleError ''Error sending tweet:'' (External ''503'')
     \<in> set (trace (snd (runAutonomousMode_iteration env_tweet_down 3600 agent0))) \<and>
   sleeps (trace (snd (runAutonomousMode_iteration env_tweet_down 3600 agent0))) = [3600 * 1000] \<and>
   sleeps (trace (snd (runAutonomousMode_iteration env_tweet_down 3600 agent0))) \<noteq> [60 * 1000]"
  by (simp add: runAutonomousMode_iteration_def runAutonomousMode_try_def
        env_tweet_down_def env_ok_def agent0_simps generateAutonomousAction_18 callLLM_def
        runAutonomousMode_publish_def trim_def js_whitespace_def emit_def sleeps_def)

text \<open>
  Claim C8. In an iteration of the loop of \<open>runAutonomousMode\<close> the tweet call is made
  exactly when \<open>callLLM\<close> returns a string that is not empty after trimming, once and
  with that string; when the trimmed string is empty, or \<open>callLLM\<close> throws, no tweet
  call is made.
\<close>

theorem tweet_iff_not_blank:
  assumes "generateAutonomousAction (random_draw env (trace a)) = Inr thought"
  shows "tweet_calls (trace (snd (runAutonomousMode_iteration env interval a))) =
     tweet_calls (trace a) @
       (case fst (callLLM env (tweet_prompt thought) a) of
          Inl e \<Rightarrow> []
        | Inr response \<Rightarrow> if trim response = [] then [] else [response])"
  by (simp add: runAutonomousMode_iteration_snd runAutonomousMode_try_Inr[OF assms]
        emit_simps runAutonomousMode_publish_agent callLLM_agent split: sum.split)

text \<open>
  A language model that answers with one space: no tweet call. One that answers
  \<open>gm!\<close>: one tweet call, with \<open>gm!\<close>.
\<close>

theorem tweet_iff_not_blank_witness:
  "generateAutonomousAction (random_draw env_llm_blank (trace agent0))
     = Inr ''Start a discussion about the future of DeFi or NFTs'' \<and>
   fst (callLLM env_llm_blank (tweet_prompt ''Start a discussion about the future of DeFi or NFTs'') agent0)
     = Inr '' '' \<and>
   tweet_calls (trace (snd (runAutonomousMode_iteration env_llm_blank 3600 agent0))) = [] \<and>
   tweet_calls (trace (snd (runAutonomousMode_iteration env_ok 3600 agent0))) = [''gm!'']"
  using tweet_iff_not_blank[of env_llm_blank agent0 "''Start a discussion about the future of DeFi or NFTs''" 3600]
    tweet_iff_not_blank[of env_ok agent0 "''Start a discussion about the future of DeFi or NFTs''" 3600]
  by (simp add: env_llm_blank_def env_ok_def agent0_simps generateAutonomousAction_18
        callLLM_def tweet_calls_def trim_def js_whitespace_def)

end
